theory Spec2Isabelle
  imports Complex_Main
begin

section \<open>Tables\<close>

text \<open>
  The analysis functions of \<^verbatim>\<open>analyzer.py\<close> read a pandas DataFrame. The model
  keeps what they observe of it: the row count \<^verbatim>\<open>len(df)\<close>, and the columns in
  table order, each with its label, its dtype class and its cells. A cell is
  \<open>None\<close> when pandas reports it as null (NaN, None, NaT). A number is the real it
  denotes. The floating-point computation of a correlation coefficient is not
  modelled: it is a parameter of the correlation functions.

  The loops over \<^verbatim>\<open>df.columns\<close> are modelled as loops over the columns: column
  labels are taken to be unique, as both loaders of \<^verbatim>\<open>app.py\<close> produce them
  (\<^verbatim>\<open>read_csv\<close> and \<^verbatim>\<open>read_excel\<close> rename repeated headers), so that
  \<^verbatim>\<open>df[col]\<close> is the column labelled \<^verbatim>\<open>col\<close>. A statement that identifies a
  column by its label assumes it explicitly.
\<close>

datatype dtype = Number | Object | Other

datatype scalar = Num real | Str string

type_synonym cell = "scalar option"

record column =
  label :: string
  dtype :: dtype
  cells :: "cell list"

record table =
  nrows :: nat
  columns :: "column list"

text \<open>Every column of a DataFrame has one cell per row.\<close>

definition wf_table :: "table \<Rightarrow> bool" where
  "wf_table df \<longleftrightarrow> (\<forall>c \<in> set (columns df). length (cells c) = nrows df)"

datatype error = ZeroDivisionError

text \<open>A Python float that may be NaN (or, for a numpy division by zero, non-finite):
  \<open>None\<close> stands for the value that is not a finite number.\<close>

type_synonym pyfloat = "real option"

subsection \<open>The pandas operations the analysis calls\<close>

definition select_dtypes :: "table \<Rightarrow> dtype \<Rightarrow> column list" where
  "select_dtypes df incl = filter (\<lambda>c. dtype c = incl) (columns df)"

definition isnull_sum :: "cell list \<Rightarrow> nat" where
  "isnull_sum s = length (filter (\<lambda>x. x = None) s)"

definition dropna :: "cell list \<Rightarrow> cell list" where
  "dropna s = filter (\<lambda>x. x \<noteq> None) s"

definition nunique :: "cell list \<Rightarrow> nat" where
  "nunique s = length (remdups (dropna s))"

fun to_float :: "cell \<Rightarrow> pyfloat" where
  "to_float (Some (Num v)) = Some v"
| "to_float _ = None"

definition values_of :: "cell list \<Rightarrow> real list" where
  "values_of s = List.map_filter to_float s"

definition series_mean :: "real list \<Rightarrow> pyfloat" where
  "series_mean xs = (if xs = [] then None else Some (sum_list xs / real (length xs)))"

definition series_median :: "real list \<Rightarrow> pyfloat" where
  "series_median xs =
     (if xs = [] then None
      else let s = sort xs; n = length s in
        if odd n then Some (s ! (n div 2))
        else Some ((s ! (n div 2 - 1) + s ! (n div 2)) / 2))"

definition series_min :: "real list \<Rightarrow> pyfloat" where
  "series_min xs = (if xs = [] then None else Some (Min (set xs)))"

definition series_max :: "real list \<Rightarrow> pyfloat" where
  "series_max xs = (if xs = [] then None else Some (Max (set xs)))"

text \<open>Sum of squared deviations from the mean, and the sample standard deviation
  (\<^verbatim>\<open>ddof=1\<close>), which is NaN below two observations.\<close>

definition ssqdm :: "real list \<Rightarrow> real" where
  "ssqdm xs = (let m = sum_list xs / real (length xs) in sum_list (map (\<lambda>x. (x - m)\<^sup>2) xs))"

definition series_std :: "real list \<Rightarrow> pyfloat" where
  "series_std xs =
     (if length xs < 2 then None else Some (sqrt (ssqdm xs / real (length xs - 1))))"

subsection \<open>Strings\<close>

text \<open>\<^verbatim>\<open>str.lower\<close> on the ASCII letters; other bytes are kept. \<^verbatim>\<open>a in b\<close> on
  strings is the contiguous-substring test.\<close>

definition lower_char :: "char \<Rightarrow> char" where
  "lower_char c =
     (case map_of (zip ''ABCDEFGHIJKLMNOPQRSTUVWXYZ'' ''abcdefghijklmnopqrstuvwxyz'') c of
        Some l \<Rightarrow> l
      | None \<Rightarrow> c)"

definition lower :: "string \<Rightarrow> string" where
  "lower s = map lower_char s"

fun starts_with :: "string \<Rightarrow> string \<Rightarrow> bool" where
  "starts_with s [] = True"
| "starts_with [] (p # ps) = False"
| "starts_with (c # cs) (p # ps) = (c = p \<and> starts_with cs ps)"

fun str_in :: "string \<Rightarrow> string \<Rightarrow> bool" where
  "str_in p [] = (p = [])"
| "str_in p (c # cs) = (starts_with (c # cs) p \<or> str_in p cs)"

section \<open>Data quality\<close>

record missing_record =
  miss_column :: string
  miss_count :: nat
  miss_percentage :: pyfloat

text \<open>\<^verbatim>\<open>missing[col] / len(df)\<close> divides a numpy integer: a zero divisor gives a
  non-finite float (with a warning), not an exception.\<close>

definition np_true_divide :: "nat \<Rightarrow> nat \<Rightarrow> pyfloat" where
  "np_true_divide a b = (if b = 0 then None else Some (real a / real b))"

definition times100 :: "pyfloat \<Rightarrow> pyfloat" where
  "times100 x = map_option (\<lambda>v. v * 100) x"

definition check_missing_data :: "table \<Rightarrow> missing_record list" where
  "check_missing_data df =
     (let missing = map (\<lambda>c. (label c, isnull_sum (cells c))) (columns df) in
      map (\<lambda>(col, n).
             \<lparr>miss_column = col, miss_count = n,
              miss_percentage = times100 (np_true_divide n (nrows df))\<rparr>)
          (filter (\<lambda>(col, n). n > 0) missing))"

section \<open>Numeric insight\<close>

record column_stats =
  column :: string
  mean :: pyfloat
  median :: pyfloat
  min_value :: pyfloat
  max_value :: pyfloat
  std :: pyfloat
  outlier_count :: nat
  insight :: string
  stat_values :: "real list"

text \<open>The fixed-point formatting of a float (\<^verbatim>\<open>{x:.1f}\<close>, \<^verbatim>\<open>{x:.2f}\<close>) is Python's
  own; it is a parameter \<open>fmt\<close>, given the number of decimals and the value.\<close>

type_synonym float_format = "nat \<Rightarrow> pyfloat \<Rightarrow> string"

definition generate_numeric_insight ::
  "float_format \<Rightarrow> string \<Rightarrow> real list \<Rightarrow> bool \<Rightarrow> string" where
  "generate_numeric_insight fmt col series beginner =
     (let mean = series_mean series; min_val = series_min series; max_val = series_max series in
      if beginner then
        ''This column shows '' @ col @ ''. '' @
        ''Most values are around '' @ fmt 1 mean @ ''. '' @
        ''Values usually fall between '' @ fmt 1 min_val @ '' and '' @ fmt 1 max_val @ ''.''
      else ''For '' @ col @ '', the mean is '' @ fmt 2 mean @ ''.'')"

text \<open>\<^verbatim>\<open>series.nunique() / len(df)\<close> divides two Python integers and raises on a
  zero divisor.\<close>

definition is_likely_identifier :: "cell list \<Rightarrow> string \<Rightarrow> table \<Rightarrow> error + bool" where
  "is_likely_identifier series column_name df =
     (let name = lower column_name in
      if str_in ''id'' name \<or> str_in ''uuid'' name then Inr True
      else if nrows df = 0 then Inl ZeroDivisionError
      else Inr (real (nunique series) / real (nrows df) > 0.95))"

definition stats_record :: "float_format \<Rightarrow> bool \<Rightarrow> string \<Rightarrow> cell list \<Rightarrow> column_stats" where
  "stats_record fmt beginner col series =
     (let vs = values_of series in
      \<lparr>column = col,
       mean = series_mean vs,
       median = series_median vs,
       min_value = series_min vs,
       max_value = series_max vs,
       std = series_std vs,
       outlier_count = 0,
       insight = generate_numeric_insight fmt col vs beginner,
       stat_values = vs\<rparr>)"

text \<open>The loop of \<^verbatim>\<open>analyze_numeric_columns\<close> over the numeric columns still to
  visit, with the list \<^verbatim>\<open>results\<close> built so far. The \<^verbatim>\<open>break\<close> test comes after
  the append, as in the source.\<close>

fun analyze_loop ::
  "float_format \<Rightarrow> table \<Rightarrow> int \<Rightarrow> bool \<Rightarrow> column list \<Rightarrow> column_stats list
     \<Rightarrow> error + column_stats list" where
  "analyze_loop fmt df max_columns beginner [] results = Inr results"
| "analyze_loop fmt df max_columns beginner (col # rest) results =
     (let series = dropna (cells col) in
      if series = [] then analyze_loop fmt df max_columns beginner rest results
      else
        (case is_likely_identifier series (label col) df of
           Inl e \<Rightarrow> Inl e
         | Inr True \<Rightarrow> analyze_loop fmt df max_columns beginner rest results
         | Inr False \<Rightarrow>
             (let results' = results @ [stats_record fmt beginner (label col) series] in
              if int (length results') \<ge> max_columns then Inr results'
              else analyze_loop fmt df max_columns beginner rest results')))"

definition analyze_numeric_columns ::
  "float_format \<Rightarrow> table \<Rightarrow> int \<Rightarrow> bool \<Rightarrow> error + column_stats list" where
  "analyze_numeric_columns fmt df max_columns beginner =
     analyze_loop fmt df max_columns beginner (select_dtypes df Number) []"

section \<open>Correlations\<close>

text \<open>\<^verbatim>\<open>DataFrame.corr()\<close> computes, for each pair of columns, a coefficient from the
  rows where both are non-null. The arithmetic on those rows is pandas' own, in IEEE
  doubles; it is the parameter \<open>coef\<close>, from the complete rows to a coefficient or
  NaN. What the model fixes is what surrounds it: the selection of the complete rows,
  NaN when there are fewer than \<^verbatim>\<open>min_periods=1\<close> of them, and one computation for
  each unordered pair of columns (the column of the larger index first), stored at both
  positions of the result. The result frame is labelled by the numeric columns on both
  axes.\<close>

fun both_present :: "cell \<times> cell \<Rightarrow> (real \<times> real) option" where
  "both_present (x, y) =
     (case (to_float x, to_float y) of (Some a, Some b) \<Rightarrow> Some (a, b) | _ \<Rightarrow> None)"

definition complete_pairs :: "cell list \<Rightarrow> cell list \<Rightarrow> (real \<times> real) list" where
  "complete_pairs xs ys = List.map_filter both_present (zip xs ys)"

type_synonym coefficient = "(real \<times> real) list \<Rightarrow> pyfloat"

definition corr_entry :: "coefficient \<Rightarrow> cell list \<Rightarrow> cell list \<Rightarrow> pyfloat" where
  "corr_entry coef xs ys =
     (let ps = complete_pairs xs ys; nobs = length ps in
      if nobs < 1 then None else coef ps)"

record corr_frame =
  corr_columns :: "string list"
  corr_entries :: "pyfloat list list"

definition corr :: "coefficient \<Rightarrow> column list \<Rightarrow> corr_frame" where
  "corr coef numeric =
     \<lparr>corr_columns = map label numeric,
      corr_entries =
        map (\<lambda>i. map (\<lambda>j. corr_entry coef (cells (numeric ! max i j)) (cells (numeric ! min i j)))
                   [0 ..< length numeric])
            [0 ..< length numeric]\<rparr>"

definition iloc :: "corr_frame \<Rightarrow> nat \<Rightarrow> nat \<Rightarrow> pyfloat" where
  "iloc m i j = corr_entries m ! i ! j"

text \<open>Comparisons with a NaN are false in Python.\<close>

definition abs_ge :: "pyfloat \<Rightarrow> real \<Rightarrow> bool" where
  "abs_ge c t = (case c of None \<Rightarrow> False | Some v \<Rightarrow> \<bar>v\<bar> \<ge> t)"

definition gt :: "pyfloat \<Rightarrow> real \<Rightarrow> bool" where
  "gt c t = (case c of None \<Rightarrow> False | Some v \<Rightarrow> v > t)"

record correlation_pair =
  column1 :: string
  column2 :: string
  correlation :: pyfloat
  direction :: string

definition pair_record :: "corr_frame \<Rightarrow> nat \<Rightarrow> nat \<Rightarrow> correlation_pair" where
  "pair_record cm i j =
     \<lparr>column1 = corr_columns cm ! i,
      column2 = corr_columns cm ! j,
      correlation = iloc cm i j,
      direction = (if gt (iloc cm i j) 0 then ''positive'' else ''negative'')\<rparr>"

definition corr_inner ::
  "corr_frame \<Rightarrow> real \<Rightarrow> nat \<Rightarrow> nat \<Rightarrow> correlation_pair list \<Rightarrow> correlation_pair list" where
  "corr_inner cm threshold i j results =
     (if abs_ge (iloc cm i j) threshold then results @ [pair_record cm i j] else results)"

definition find_correlations :: "coefficient \<Rightarrow> table \<Rightarrow> real \<Rightarrow> correlation_pair list" where
  "find_correlations coef df threshold =
     (let numeric = select_dtypes df Number in
      if length numeric < 2 then []
      else
        let cm = corr coef numeric; n = length (corr_columns cm) in
        fold (\<lambda>i results. fold (corr_inner cm threshold i) [i + 1 ..< n] results) [0 ..< n] [])"


section \<open>Categorical\<close>

text \<open>\<^verbatim>\<open>value_counts()\<close>: the distinct non-null values in order of first
  appearance, each with its number of occurrences, then sorted by descending count
  (a stable sort, so ties keep that order). \<^verbatim>\<open>head(10)\<close> keeps the first ten.\<close>

definition value_counts :: "cell list \<Rightarrow> (scalar \<times> nat) list" where
  "value_counts s =
     (let vs = map the (dropna s);
          keys = rev (remdups (rev vs))
      in sort_key (\<lambda>(k, n). - int n) (map (\<lambda>k. (k, count_list vs k)) keys))"

definition head :: "nat \<Rightarrow> 'a list \<Rightarrow> 'a list" where
  "head n xs = take n xs"

text \<open>The slice \<^verbatim>\<open>xs[:m]\<close>: a negative bound counts from the end.\<close>

definition slice_to :: "'a list \<Rightarrow> int \<Rightarrow> 'a list" where
  "slice_to xs m = (if m \<ge> 0 then take (nat m) xs else take (length xs - nat (- m)) xs)"

text \<open>The \<^verbatim>\<open>top_values\<close> entry is tested against \<^verbatim>\<open>None\<close> by the caller, so the
  field admits the absence marker.\<close>

record categorical_summary =
  cat_column :: string
  unique_count :: nat
  top_values :: "(scalar \<times> nat) list option"

definition analyze_categorical_columns :: "table \<Rightarrow> int \<Rightarrow> categorical_summary list" where
  "analyze_categorical_columns df max_columns =
     map (\<lambda>col.
            \<lparr>cat_column = label col,
             unique_count = nunique (cells col),
             top_values = Some (head 10 (value_counts (cells col)))\<rparr>)
         (slice_to (select_dtypes df Object) max_columns)"

subsection \<open>The categories display loop of the application\<close>

text \<open>\<^verbatim>\<open>str\<close> of a non-negative integer, as an f-string prints it.\<close>

fun str_nat :: "nat \<Rightarrow> string" where
  "str_nat n =
     (if n < 10 then [''0123456789'' ! n]
      else str_nat (n div 10) @ [''0123456789'' ! (n mod 10)])"

declare str_nat.simps [simp del]

datatype ui_event =
    Markdown string
  | Pyplot "(scalar \<times> nat) list" string
  | Caption string

definition display_category :: "categorical_summary \<Rightarrow> ui_event list" where
  "display_category cat =
     Markdown (''**'' @ cat_column cat @ ''** ('' @ str_nat (unique_count cat) @ '' unique values)'') #
     (case top_values cat of
        Some tv \<Rightarrow> [Pyplot tv (cat_column cat)]
      | None \<Rightarrow> [Caption ''Too many unique values to visualize clearly.''])"

definition display_categories :: "categorical_summary list \<Rightarrow> ui_event list" where
  "display_categories categories = concat (map display_category categories)"

section \<open>Dataset overview\<close>

text \<open>\<^verbatim>\<open>pd.to_datetime(series, errors="coerce")\<close> and the printing of a date belong to
  pandas; they are the parameters \<open>to_datetime\<close> (one timestamp or NaT per cell) and
  \<open>date_str\<close>. Timestamps are any linearly ordered type.\<close>

definition notna_mean :: "'t option list \<Rightarrow> pyfloat" where
  "notna_mean dates =
     (if dates = [] then None
      else Some (real (length (filter (\<lambda>d. d \<noteq> None) dates)) / real (length dates)))"

definition dates_min :: "('t::linorder) option list \<Rightarrow> 't option" where
  "dates_min dates =
     (case List.map_filter id dates of [] \<Rightarrow> None | d # ds \<Rightarrow> Some (Min (set (d # ds))))"

definition dates_max :: "('t::linorder) option list \<Rightarrow> 't option" where
  "dates_max dates =
     (case List.map_filter id dates of [] \<Rightarrow> None | d # ds \<Rightarrow> Some (Max (set (d # ds))))"

definition date_of :: "('t \<Rightarrow> string) \<Rightarrow> 't option \<Rightarrow> string" where
  "date_of date_str d = (case d of None \<Rightarrow> ''NaT'' | Some t \<Rightarrow> date_str t)"

fun date_range_loop ::
  "(cell list \<Rightarrow> ('t::linorder) option list) \<Rightarrow> ('t \<Rightarrow> string) \<Rightarrow> column list \<Rightarrow> string" where
  "date_range_loop to_datetime date_str [] = ''No date column detected''"
| "date_range_loop to_datetime date_str (col # rest) =
     (if dtype col = Object then
        (let dates = to_datetime (cells col) in
         if gt (notna_mean dates) 0.7 then
           date_of date_str (dates_min dates) @ '' to '' @ date_of date_str (dates_max dates)
         else date_range_loop to_datetime date_str rest)
      else date_range_loop to_datetime date_str rest)"

definition identify_date_range ::
  "(cell list \<Rightarrow> ('t::linorder) option list) \<Rightarrow> ('t \<Rightarrow> string) \<Rightarrow> table \<Rightarrow> string" where
  "identify_date_range to_datetime date_str df =
     date_range_loop to_datetime date_str (columns df)"

record overview =
  total_rows :: nat
  total_columns :: nat
  date_range :: string

definition get_dataset_overview ::
  "(cell list \<Rightarrow> ('t::linorder) option list) \<Rightarrow> ('t \<Rightarrow> string) \<Rightarrow> table \<Rightarrow> overview" where
  "get_dataset_overview to_datetime date_str df =
     \<lparr>total_rows = nrows df,
      total_columns = length (columns df),
      date_range = identify_date_range to_datetime date_str df\<rparr>"

section \<open>PDF report\<close>

text \<open>The document is the sequence of calls made on the reportlab canvas. An image
  is named by what it plots. \<^verbatim>\<open>textwrap.wrap\<close> is the parameter \<open>wrap\<close>. The page
  height is that of A4 in points.\<close>

datatype image = Histogram "real list" string | Heatmap corr_frame

datatype canvas_op =
    SetFont string nat
  | DrawString real real string
  | DrawImage image real real real real
  | ShowPage
  | Save

definition height :: real where
  "height = 297 * (72 / 2.54 * 0.1)"

definition margin_x :: real where
  "margin_x = 50"

type_synonym canvas = "canvas_op list \<times> real"

definition new_page :: "canvas \<Rightarrow> canvas" where
  "new_page cv = (fst cv @ [ShowPage, SetFont ''Helvetica'' 11], height - 50)"

definition draw_line :: "string \<Rightarrow> canvas \<Rightarrow> canvas" where
  "draw_line line cv =
     (fst cv @ [SetFont ''Helvetica'' 11, DrawString margin_x (snd cv) line], snd cv - 14)"

definition draw_stat :: "(string \<Rightarrow> nat \<Rightarrow> string list) \<Rightarrow> column_stats \<Rightarrow> canvas \<Rightarrow> canvas" where
  "draw_stat wrap stat cv =
     (let cv1 = (if snd cv < 250 then new_page cv else cv);
          cv2 = (fst cv1 @ [SetFont ''Helvetica-Bold'' 12, DrawString margin_x (snd cv1) (column stat)],
                 snd cv1 - 15);
          cv3 = fold draw_line (wrap (insight stat) 90) cv2
      in (fst cv3 @
            [DrawImage (Histogram (stat_values stat) (column stat)) margin_x (snd cv3 - 120) 300 120],
          snd cv3 - 150))"

definition draw_heatmap :: "corr_frame option \<Rightarrow> canvas \<Rightarrow> canvas" where
  "draw_heatmap corr_matrix cv =
     (case corr_matrix of
        None \<Rightarrow> cv
      | Some m \<Rightarrow>
          (let cv1 = new_page cv in
           (fst cv1 @
              [SetFont ''Helvetica-Bold'' 13,
               DrawString margin_x (snd cv1) ''Correlation Heatmap'',
               DrawImage (Heatmap m) margin_x (snd cv1 - 20 - 300) 300 300],
            snd cv1 - 20)))"

definition generate_pdf_report ::
  "(string \<Rightarrow> nat \<Rightarrow> string list) \<Rightarrow> string \<Rightarrow> overview \<Rightarrow> column_stats list
     \<Rightarrow> corr_frame option \<Rightarrow> categorical_summary list \<Rightarrow> canvas_op list" where
  "generate_pdf_report wrap dataset_name ov numeric corr_matrix categories =
     (let y = height - 50;
          title =
            [SetFont ''Helvetica-Bold'' 16,
             DrawString margin_x y ''Statscope Report'',
             SetFont ''Helvetica-Oblique'' 11,
             DrawString margin_x (y - 25) (''Dataset: '' @ dataset_name)];
          y = y - 25 - 30;
          overview_block =
            [SetFont ''Helvetica'' 11,
             DrawString margin_x y (''Rows: '' @ str_nat (total_rows ov)),
             DrawString margin_x (y - 15) (''Columns: '' @ str_nat (total_columns ov)),
             DrawString margin_x (y - 15 - 15) (''Date range: '' @ date_range ov)];
          y = y - 15 - 15 - 30;
          heading =
            [SetFont ''Helvetica-Bold'' 13,
             DrawString margin_x y ''Numeric Insights''];
          y = y - 20;
          cv = fold (draw_stat wrap) numeric (title @ overview_block @ heading, y);
          cv = draw_heatmap corr_matrix cv
      in fst cv @ [Save])"

text \<open>The strings a document draws, in order.\<close>

fun drawn_text :: "canvas_op list \<Rightarrow> string list" where
  "drawn_text [] = []"
| "drawn_text (DrawString x y s # ops) = s # drawn_text ops"
| "drawn_text (op # ops) = drawn_text ops"

section \<open>Predicates of the statements\<close>

text \<open>The three exclusion checks of the numeric analysis, on a column of a table:
  nothing left after dropping nulls, an identifier-like name, or more than 95 distinct
  values per 100 rows.\<close>

definition excluded :: "table \<Rightarrow> column \<Rightarrow> bool" where
  "excluded df c \<longleftrightarrow>
     dropna (cells c) = [] \<or>
     str_in ''id'' (lower (label c)) \<or> str_in ''uuid'' (lower (label c)) \<or>
     real (nunique (cells c)) / real (nrows df) > 0.95"

text \<open>A table to evaluate the functions on: four rows, six columns.\<close>

definition sample_table :: table where
  "sample_table =
     \<lparr>nrows = 4,
      columns =
        [\<lparr>label = ''User_ID'', dtype = Number,
          cells = [Some (Num 1), Some (Num 2), Some (Num 3), Some (Num 4)]\<rparr>,
         \<lparr>label = ''age'', dtype = Number,
          cells = [Some (Num 30), Some (Num 30), None, Some (Num 41)]\<rparr>,
         \<lparr>label = ''city'', dtype = Object,
          cells = [Some (Str ''Oslo''), Some (Str ''Rome''), Some (Str ''Oslo''), None]\<rparr>,
         \<lparr>label = ''score'', dtype = Number,
          cells = [Some (Num 1), Some (Num 2), Some (Num 3), Some (Num 4)]\<rparr>,
         \<lparr>label = ''blank'', dtype = Number, cells = [None, None, None, None]\<rparr>,
         \<lparr>label = ''level'', dtype = Number,
          cells = [Some (Num 2), Some (Num 2), Some (Num 3), Some (Num 3)]\<rparr>]\<rparr>"

definition no_format :: float_format where
  "no_format d x = []"

text \<open>A table with columns and no row.\<close>

definition empty_table :: table where
  "empty_table =
     \<lparr>nrows = 0,
      columns =
        [\<lparr>label = ''price'', dtype = Number, cells = []\<rparr>,
         \<lparr>label = ''name'', dtype = Object, cells = []\<rparr>]\<rparr>"

definition sample_overview :: overview where
  "sample_overview =
     \<lparr>total_rows = 4, total_columns = 6, date_range = ''No date column detected''\<rparr>"

text \<open>A text column counts as a date column when more than 0.7 of its cells parse as
  dates; \<open>parsed_dates\<close> are the timestamps of those that do.\<close>

definition is_date_column :: "(cell list \<Rightarrow> 't option list) \<Rightarrow> column \<Rightarrow> bool" where
  "is_date_column to_datetime c \<longleftrightarrow>
     dtype c = Object \<and> to_datetime (cells c) \<noteq> [] \<and>
     real (length (filter (\<lambda>d. d \<noteq> None) (to_datetime (cells c)))) /
       real (length (to_datetime (cells c))) > 0.7"

definition parsed_dates :: "(cell list \<Rightarrow> 't option list) \<Rightarrow> column \<Rightarrow> 't list" where
  "parsed_dates to_datetime c = List.map_filter id (to_datetime (cells c))"

text \<open>A table with text columns, and a date parser and printer for it: the days of
  January 2024, as numbers.\<close>

definition dated_table :: table where
  "dated_table =
     \<lparr>nrows = 4,
      columns =
        [\<lparr>label = ''note'', dtype = Object,
          cells = [Some (Str ''paid''), Some (Str ''2024-01-02''), Some (Str ''late''), None]\<rparr>,
         \<lparr>label = ''amount'', dtype = Number,
          cells = [Some (Num 5), Some (Num 7), Some (Num 7), Some (Num 9)]\<rparr>,
         \<lparr>label = ''day'', dtype = Object,
          cells = [Some (Str ''2024-01-09''), Some (Str ''2024-01-02''), Some (Str ''soon''),
                   Some (Str ''2024-01-05'')]\<rparr>,
         \<lparr>label = ''due'', dtype = Object,
          cells = [Some (Str ''2024-01-01''), Some (Str ''2024-01-02''), Some (Str ''2024-01-05''),
                   Some (Str ''2024-01-09'')]\<rparr>]\<rparr>"

fun january_day :: "cell \<Rightarrow> nat option" where
  "january_day (Some (Str s)) =
     map_of [(''2024-01-01'', 1), (''2024-01-02'', 2), (''2024-01-05'', 5), (''2024-01-09'', 9)] s"
| "january_day _ = None"

definition january_to_datetime :: "cell list \<Rightarrow> nat option list" where
  "january_to_datetime s = map january_day s"

definition january_str :: "nat \<Rightarrow> string" where
  "january_str d = ''2024-01-0'' @ str_nat d"

text \<open>The index pairs above the diagonal of an \<open>n\<close> by \<open>n\<close> matrix, row by row.\<close>

definition upper_pairs :: "nat \<Rightarrow> (nat \<times> nat) list" where
  "upper_pairs n = concat (map (\<lambda>i. map (\<lambda>j. (i, j)) [i + 1 ..< n]) [0 ..< n])"

definition row_major :: "nat \<times> nat \<Rightarrow> nat \<times> nat \<Rightarrow> bool" where
  "row_major p q \<longleftrightarrow> fst p < fst q \<or> (fst p = fst q \<and> snd p < snd q)"

text \<open>A table whose numeric columns correlate in simple fractions; \<^verbatim>\<open>flat\<close> is
  constant.\<close>

definition paired_table :: table where
  "paired_table =
     \<lparr>nrows = 3,
      columns =
        [\<lparr>label = ''up'', dtype = Number, cells = [Some (Num 1), Some (Num 2), Some (Num 3)]\<rparr>,
         \<lparr>label = ''down'', dtype = Number, cells = [Some (Num 3), Some (Num 2), Some (Num 1)]\<rparr>,
         \<lparr>label = ''tag'', dtype = Object,
          cells = [Some (Str ''a''), Some (Str ''b''), Some (Str ''c'')]\<rparr>,
         \<lparr>label = ''flat'', dtype = Number, cells = [Some (Num 2), Some (Num 2), Some (Num 2)]\<rparr>,
         \<lparr>label = ''mixed'', dtype = Number, cells = [Some (Num 1), Some (Num 3), Some (Num 2)]\<rparr>]\<rparr>"

text \<open>A coefficient to evaluate the correlation functions with: Pearson's, computed
  exactly. It stands in for the floating-point one on small whole numbers only.\<close>

definition pearson_exact :: coefficient where
  "pearson_exact ps =
     (let nobs = length ps;
          mx = sum_list (map fst ps) / real nobs;
          my = sum_list (map snd ps) / real nobs;
          ssx = sum_list (map (\<lambda>(a, b). (a - mx)\<^sup>2) ps);
          ssy = sum_list (map (\<lambda>(a, b). (b - my)\<^sup>2) ps);
          covxy = sum_list (map (\<lambda>(a, b). (a - mx) * (b - my)) ps);
          divisor = sqrt (ssx * ssy)
      in if divisor \<noteq> 0 then Some (covxy / divisor) else None)"

section \<open>Properties of the numeric analysis\<close>

lemma dropna_idem: "dropna (dropna s) = dropna s"
  by (simp add: dropna_def)

lemma nunique_dropna: "nunique (dropna s) = nunique s"
  by (simp add: nunique_def dropna_idem)

lemma column_stats_record [simp]: "column (stats_record fmt b l s) = l"
  by (simp add: stats_record_def Let_def)

lemma outlier_stats_record [simp]: "outlier_count (stats_record fmt b l s) = 0"
  by (simp add: stats_record_def Let_def)

text \<open>What the loop returns when no division by a zero row count can be reached: the
  records of the first columns that pass the checks, as many as the cap still allows,
  and one at least, since the cap is tested only after a record is appended.\<close>

lemma analyze_loop_char:
  assumes "\<forall>c \<in> set cs. dropna (cells c) \<noteq> [] \<longrightarrow> nrows df > 0"
  shows "analyze_loop fmt df m b cs rs =
     Inr (rs @ map (\<lambda>c. stats_record fmt b (label c) (dropna (cells c)))
                  (take (nat (max 1 (m - int (length rs)))) (filter (\<lambda>c. \<not> excluded df c) cs)))"
  using assms
proof (induction cs arbitrary: rs)
  case Nil
  then show ?case by simp
next
  case (Cons c cs)
  have IH: "\<And>rs. analyze_loop fmt df m b cs rs =
     Inr (rs @ map (\<lambda>c. stats_record fmt b (label c) (dropna (cells c)))
                  (take (nat (max 1 (m - int (length rs)))) (filter (\<lambda>c. \<not> excluded df c) cs)))"
    using Cons by simp
  show ?case
  proof (cases "dropna (cells c) = []")
    case True
    then show ?thesis by (simp add: IH excluded_def)
  next
    case ne: False
    then have pos: "nrows df > 0" using Cons.prems by simp
    show ?thesis
    proof (cases "excluded df c")
      case True
      then show ?thesis using ne pos
        by (auto simp add: IH excluded_def is_likely_identifier_def nunique_dropna Let_def)
    next
      case False
      then have ili: "is_likely_identifier (dropna (cells c)) (label c) df = Inr False"
        using ne pos by (auto simp add: excluded_def is_likely_identifier_def nunique_dropna Let_def)
      show ?thesis
      proof (cases "int (length rs) + 1 \<ge> m")
        case True
        then have "nat (max 1 (m - int (length rs))) = 1" by simp
        then show ?thesis using ne False ili True by (simp add: Let_def)
      next
        case F2: False
        then have "nat (max 1 (m - int (length rs))) = Suc (nat (max 1 (m - int (length rs) - 1)))"
          by simp
        then show ?thesis using ne False ili F2 by (simp add: Let_def IH algebra_simps)
      qed
    qed
  qed
qed

lemma wf_table_rows:
  assumes "wf_table df" "c \<in> set (columns df)" "dropna (cells c) \<noteq> []"
  shows "nrows df > 0"
proof -
  have "length (cells c) = nrows df" using assms by (simp add: wf_table_def)
  moreover have "cells c \<noteq> []" using assms(3) by (auto simp add: dropna_def)
  ultimately show ?thesis by (cases "cells c") auto
qed

lemma analyze_numeric_columns_char:
  assumes "wf_table df"
  shows "analyze_numeric_columns fmt df m b =
     Inr (map (\<lambda>c. stats_record fmt b (label c) (dropna (cells c)))
            (take (nat (max 1 m)) (filter (\<lambda>c. \<not> excluded df c) (select_dtypes df Number))))"
proof -
  have "\<forall>c \<in> set (select_dtypes df Number). dropna (cells c) \<noteq> [] \<longrightarrow> nrows df > 0"
    using wf_table_rows [OF assms] by (auto simp add: select_dtypes_def)
  then show ?thesis
    unfolding analyze_numeric_columns_def by (simp add: analyze_loop_char)
qed

lemma wf_sample_table: "wf_table sample_table"
  by (simp add: wf_table_def sample_table_def)

lemma distinct_sample_table: "distinct (map label (columns sample_table))"
  by (simp add: sample_table_def)

lemma wf_empty_table: "wf_table empty_table"
  by (simp add: wf_table_def empty_table_def)

text \<open>With a cap of one or more, the result is never longer than the cap.\<close>

lemma analyze_numeric_columns_length:
  assumes "wf_table df" "1 \<le> m"
  shows "\<exists>rs. analyze_numeric_columns fmt df m b = Inr rs \<and> int (length rs) \<le> m"
  using assms by (simp add: analyze_numeric_columns_char)

text \<open>
  C1. The result of \<^verbatim>\<open>analyze_numeric_columns\<close> is claimed to be no longer than
  \<^verbatim>\<open>max_columns\<close>, also for \<^verbatim>\<open>max_columns = 0\<close>. On the sample table with a cap of
  0 the function returns one record, that of column \<^verbatim>\<open>age\<close>: the length is tested
  against the cap only after the record has been appended.
\<close>

theorem analyze_numeric_columns_zero_cap:
  "\<exists>rs. analyze_numeric_columns no_format sample_table 0 True = Inr rs \<and>
        map column rs = [''age''] \<and> \<not> int (length rs) \<le> 0"
  by (simp add: sample_table_def analyze_numeric_columns_def select_dtypes_def dropna_def
      is_likely_identifier_def lower_def lower_char_def nunique_def Let_def)

lemma sample_numeric_result:
  "analyze_numeric_columns fmt sample_table 3 b =
     Inr [stats_record fmt b ''age'' [Some (Num 30), Some (Num 30), Some (Num 41)],
          stats_record fmt b ''level'' [Some (Num 2), Some (Num 2), Some (Num 3), Some (Num 3)]]"
  by (simp add: sample_table_def analyze_numeric_columns_def select_dtypes_def dropna_def
      is_likely_identifier_def lower_def lower_char_def nunique_def Let_def)

text \<open>
  C4. A numeric column that is empty once nulls are dropped, or whose lower-cased name
  contains \<^verbatim>\<open>id\<close> or \<^verbatim>\<open>uuid\<close>, or that has more than 0.95 distinct values per row,
  contributes no record to \<^verbatim>\<open>analyze_numeric_columns\<close>; every record returned is that
  of a numeric column passing all three checks. Columns are identified by their
  labels, which are unique.
\<close>

theorem numeric_exclusion:
  assumes "wf_table df" and "distinct (map label (columns df))"
  shows "\<exists>rs. analyze_numeric_columns fmt df m b = Inr rs \<and>
    (\<forall>c \<in> set (columns df). dtype c = Number \<and> excluded df c \<longrightarrow> label c \<notin> column ` set rs) \<and>
    (\<forall>r \<in> set rs. \<exists>c \<in> set (columns df). dtype c = Number \<and> \<not> excluded df c \<and>
        r = stats_record fmt b (label c) (dropna (cells c)))"
proof -
  let ?rs = "map (\<lambda>c. stats_record fmt b (label c) (dropna (cells c)))
            (take (nat (max 1 m)) (filter (\<lambda>c. \<not> excluded df c) (select_dtypes df Number)))"
  have eq: "analyze_numeric_columns fmt df m b = Inr ?rs"
    using assms(1) by (rule analyze_numeric_columns_char)
  have src: "\<exists>c \<in> set (columns df). dtype c = Number \<and> \<not> excluded df c \<and>
        r = stats_record fmt b (label c) (dropna (cells c))" if "r \<in> set ?rs" for r
  proof -
    from that obtain c
      where c: "c \<in> set (take (nat (max 1 m))
                  (filter (\<lambda>c. \<not> excluded df c) (select_dtypes df Number)))"
      and r: "r = stats_record fmt b (label c) (dropna (cells c))" by auto
    from c have "c \<in> set (filter (\<lambda>c. \<not> excluded df c) (select_dtypes df Number))"
      by (rule in_set_takeD)
    then show ?thesis using r by (auto simp add: select_dtypes_def)
  qed
  have excl: "label c \<notin> column ` set ?rs"
    if "c \<in> set (columns df)" "dtype c = Number \<and> excluded df c" for c
  proof
    assume "label c \<in> column ` set ?rs"
    then obtain r where r: "r \<in> set ?rs" and l: "label c = column r" by auto
    from src [OF r] obtain c' where c': "c' \<in> set (columns df)" "\<not> excluded df c'"
      "r = stats_record fmt b (label c') (dropna (cells c'))" by auto
    then have "label c' = label c" using l by simp
    then have "c' = c" using assms(2) c'(1) that(1) by (simp add: distinct_map inj_on_def)
    then show False using c'(2) that(2) by simp
  qed
  show ?thesis using eq src excl by blast
qed

theorem numeric_exclusion_witness:
  "wf_table sample_table \<and> distinct (map label (columns sample_table)) \<and>
   (\<exists>rs. analyze_numeric_columns no_format sample_table 3 True = Inr rs \<and>
      map column rs = [''age'', ''level''] \<and>
      ''User_ID'' \<notin> column ` set rs \<and> ''score'' \<notin> column ` set rs \<and>
      ''blank'' \<notin> column ` set rs)"
proof -
  obtain rs where rs: "analyze_numeric_columns no_format sample_table 3 True = Inr rs"
    and ex: "\<forall>c \<in> set (columns sample_table).
        dtype c = Number \<and> excluded sample_table c \<longrightarrow> label c \<notin> column ` set rs"
    using numeric_exclusion [OF wf_sample_table distinct_sample_table, of no_format 3 True]
    by blast
  have cols: "map column rs = [''age'', ''level'']"
    using rs by (auto simp add: sample_numeric_result)
  let ?uid = "\<lparr>label = ''User_ID'', dtype = Number,
          cells = [Some (Num 1), Some (Num 2), Some (Num 3), Some (Num 4)]\<rparr>"
  let ?score = "\<lparr>label = ''score'', dtype = Number,
          cells = [Some (Num 1), Some (Num 2), Some (Num 3), Some (Num 4)]\<rparr>"
  let ?blank = "\<lparr>label = ''blank'', dtype = Number, cells = [None, None, None, None]\<rparr>"
  have "?uid \<in> set (columns sample_table)" "dtype ?uid = Number \<and> excluded sample_table ?uid"
    by (simp_all add: sample_table_def excluded_def lower_def lower_char_def)
  then have a: "''User_ID'' \<notin> column ` set rs" using ex by fastforce
  have "?score \<in> set (columns sample_table)" "dtype ?score = Number \<and> excluded sample_table ?score"
    by (simp_all add: sample_table_def excluded_def nunique_def dropna_def)
  then have b: "''score'' \<notin> column ` set rs" using ex by fastforce
  have "?blank \<in> set (columns sample_table)" "dtype ?blank = Number \<and> excluded sample_table ?blank"
    by (simp_all add: sample_table_def excluded_def dropna_def)
  then have c: "''blank'' \<notin> column ` set rs" using ex by fastforce
  show ?thesis
    by (intro conjI exI [of _ rs]) (rule wf_sample_table distinct_sample_table rs cols a b c)+
qed

text \<open>
  C8. Every record returned by \<^verbatim>\<open>analyze_numeric_columns\<close> has an
  \<^verbatim>\<open>outlier_count\<close> of 0, whatever the cap and the verbosity flag; and the function
  does return.
\<close>

theorem outlier_count_zero:
  assumes "wf_table df"
  shows "\<exists>rs. analyze_numeric_columns fmt df m b = Inr rs \<and> (\<forall>r \<in> set rs. outlier_count r = 0)"
  using assms by (auto simp add: analyze_numeric_columns_char)

theorem outlier_count_zero_witness:
  "wf_table sample_table \<and>
   (\<exists>rs. analyze_numeric_columns no_format sample_table 3 False = Inr rs \<and> length rs = 2 \<and>
      (\<forall>r \<in> set rs. outlier_count r = 0))"
proof -
  obtain rs where rs: "analyze_numeric_columns no_format sample_table 3 False = Inr rs"
    and z: "\<forall>r \<in> set rs. outlier_count r = 0"
    using outlier_count_zero [OF wf_sample_table, of no_format 3 False] by blast
  have "length rs = 2" using rs by (auto simp add: sample_numeric_result)
  then show ?thesis using wf_sample_table rs z by blast
qed

section \<open>Properties of the data-quality check\<close>

lemma isnull_sum_le: "isnull_sum s \<le> length s"
  by (simp add: isnull_sum_def)

lemma check_missing_data_eq:
  assumes "wf_table df"
  shows "check_missing_data df =
     map (\<lambda>c. \<lparr>miss_column = label c, miss_count = isnull_sum (cells c),
               miss_percentage = Some (real (isnull_sum (cells c)) / real (nrows df) * 100)\<rparr>)
         (filter (\<lambda>c. isnull_sum (cells c) \<noteq> 0) (columns df))"
proof -
  have pos: "nrows df \<noteq> 0" if "c \<in> set (columns df)" "isnull_sum (cells c) \<noteq> 0" for c
  proof -
    have "length (cells c) = nrows df" using assms that(1) by (simp add: wf_table_def)
    then show ?thesis using that(2) isnull_sum_le [of "cells c"] by auto
  qed
  show ?thesis
    unfolding check_missing_data_def Let_def
    by (auto simp add: filter_map o_def np_true_divide_def times100_def dest: pos)
qed

text \<open>
  C7. \<^verbatim>\<open>check_missing_data\<close> returns one record for each column with a nonzero null
  count and none for the others, in table column order; the record holds the column's
  name, its null count, and the null count divided by the row count, times 100.
\<close>

theorem check_missing_data_records:
  assumes "wf_table df"
  shows "check_missing_data df =
     map (\<lambda>c. \<lparr>miss_column = label c, miss_count = isnull_sum (cells c),
               miss_percentage = Some (real (isnull_sum (cells c)) / real (nrows df) * 100)\<rparr>)
         (filter (\<lambda>c. isnull_sum (cells c) \<noteq> 0) (columns df))"
  using assms by (rule check_missing_data_eq)

theorem check_missing_data_records_witness:
  "wf_table sample_table \<and>
   check_missing_data sample_table =
     [\<lparr>miss_column = ''age'', miss_count = 1, miss_percentage = Some 25\<rparr>,
      \<lparr>miss_column = ''city'', miss_count = 1, miss_percentage = Some 25\<rparr>,
      \<lparr>miss_column = ''blank'', miss_count = 4, miss_percentage = Some 100\<rparr>]"
  using wf_sample_table check_missing_data_records [OF wf_sample_table]
  by (simp add: sample_table_def isnull_sum_def)

text \<open>
  C10. On a table with zero rows \<^verbatim>\<open>check_missing_data\<close> and
  \<^verbatim>\<open>analyze_numeric_columns\<close> both return the empty sequence, the latter without
  raising. Neither division by the row count is reached: every null count is zero, so
  the comprehension that divides runs over no column, and every column is empty after
  dropping nulls, so the left operand of \<^verbatim>\<open>or\<close> decides the skip and
  \<^verbatim>\<open>is_likely_identifier\<close> is not called.
\<close>

theorem zero_rows_no_division:
  assumes "wf_table df" and "nrows df = 0"
  shows "check_missing_data df = [] \<and>
         analyze_numeric_columns fmt df m b = Inr [] \<and>
         (\<forall>c \<in> set (columns df). isnull_sum (cells c) = 0 \<and> dropna (cells c) = [])"
proof -
  have empty: "cells c = []" if "c \<in> set (columns df)" for c
    using assms that by (simp add: wf_table_def)
  then have guards: "\<forall>c \<in> set (columns df). isnull_sum (cells c) = 0 \<and> dropna (cells c) = []"
    by (simp add: isnull_sum_def dropna_def)
  then have "filter (\<lambda>c. isnull_sum (cells c) \<noteq> 0) (columns df) = []"
    by (simp add: filter_empty_conv)
  then have a: "check_missing_data df = []"
    using check_missing_data_eq [OF assms(1)] by simp
  have "filter (\<lambda>c. \<not> excluded df c) (select_dtypes df Number) = []"
    using guards by (auto simp add: filter_empty_conv excluded_def select_dtypes_def)
  then have b: "analyze_numeric_columns fmt df m b = Inr []"
    using analyze_numeric_columns_char [OF assms(1)] by simp
  show ?thesis using a b guards by simp
qed

theorem zero_rows_no_division_witness:
  "wf_table empty_table \<and> nrows empty_table = 0 \<and> length (columns empty_table) = 2 \<and>
   check_missing_data empty_table = [] \<and>
   analyze_numeric_columns no_format empty_table 3 True = Inr [] \<and>
   map (\<lambda>c. isnull_sum (cells c)) (columns empty_table) = [0, 0] \<and>
   map (\<lambda>c. dropna (cells c)) (columns empty_table) = [[], []]"
proof -
  have z: "nrows empty_table = 0" and ne: "length (columns empty_table) = 2"
    by (simp_all add: empty_table_def)
  have "check_missing_data empty_table = [] \<and>
        analyze_numeric_columns no_format empty_table 3 True = Inr [] \<and>
        (\<forall>c \<in> set (columns empty_table). isnull_sum (cells c) = 0 \<and> dropna (cells c) = [])"
    by (rule zero_rows_no_division [OF wf_empty_table z])
  then show ?thesis
    using wf_empty_table z ne by (simp add: empty_table_def)
qed

section \<open>Properties of the report\<close>

lemma report_without_records:
  "generate_pdf_report wrap dataset_name ov [] None categories =
     [SetFont ''Helvetica-Bold'' 16,
      DrawString margin_x (height - 50) ''Statscope Report'',
      SetFont ''Helvetica-Oblique'' 11,
      DrawString margin_x (height - 50 - 25) (''Dataset: '' @ dataset_name),
      SetFont ''Helvetica'' 11,
      DrawString margin_x (height - 50 - 25 - 30) (''Rows: '' @ str_nat (total_rows ov)),
      DrawString margin_x (height - 50 - 25 - 30 - 15) (''Columns: '' @ str_nat (total_columns ov)),
      DrawString margin_x (height - 50 - 25 - 30 - 15 - 15) (''Date range: '' @ date_range ov),
      SetFont ''Helvetica-Bold'' 13,
      DrawString margin_x (height - 50 - 25 - 30 - 15 - 15 - 30) ''Numeric Insights'',
      Save]"
  by (simp add: generate_pdf_report_def Let_def draw_heatmap_def)

text \<open>
  C3. With no numeric record and no correlation matrix the report is claimed to draw the
  Title and Overview blocks and nothing else, no other heading. The heading
  \<^verbatim>\<open>Numeric Insights\<close> is drawn before the loop over the records, whether or not
  there is one: the drawn strings of such a report are not the five of the two blocks.
\<close>

theorem report_draws_numeric_heading:
  "''Numeric Insights'' \<in>
     set (drawn_text (generate_pdf_report (\<lambda>s n. [s]) ''sales.csv'' sample_overview [] None [])) \<and>
   drawn_text (generate_pdf_report (\<lambda>s n. [s]) ''sales.csv'' sample_overview [] None []) \<noteq>
     [''Statscope Report'', ''Dataset: sales.csv'', ''Rows: 4'', ''Columns: 6'',
      ''Date range: No date column detected'']"
  by (simp add: report_without_records)

text \<open>
  C3, as amended. With no numeric record and no correlation matrix the document is, for
  every dataset name, overview and categorical summaries: the Title block, the Overview
  block, the heading \<^verbatim>\<open>Numeric Insights\<close> with nothing under it, and the save; no
  image, no page break, no \<^verbatim>\<open>Correlation Heatmap\<close> heading.
\<close>

theorem report_title_overview_heading:
  "generate_pdf_report wrap dataset_name ov [] None categories =
     [SetFont ''Helvetica-Bold'' 16,
      DrawString margin_x (height - 50) ''Statscope Report'',
      SetFont ''Helvetica-Oblique'' 11,
      DrawString margin_x (height - 50 - 25) (''Dataset: '' @ dataset_name),
      SetFont ''Helvetica'' 11,
      DrawString margin_x (height - 50 - 25 - 30) (''Rows: '' @ str_nat (total_rows ov)),
      DrawString margin_x (height - 50 - 25 - 30 - 15) (''Columns: '' @ str_nat (total_columns ov)),
      DrawString margin_x (height - 50 - 25 - 30 - 15 - 15) (''Date range: '' @ date_range ov),
      SetFont ''Helvetica-Bold'' 13,
      DrawString margin_x (height - 50 - 25 - 30 - 15 - 15 - 30) ''Numeric Insights'',
      Save] \<and>
   drawn_text (generate_pdf_report wrap dataset_name ov [] None categories) =
     [''Statscope Report'', ''Dataset: '' @ dataset_name,
      ''Rows: '' @ str_nat (total_rows ov), ''Columns: '' @ str_nat (total_columns ov),
      ''Date range: '' @ date_range ov, ''Numeric Insights'']"
  by (simp add: report_without_records)

section \<open>Properties of the categorical analysis\<close>

lemma value_counts_descending: "sorted_wrt (\<lambda>a b. snd a \<ge> snd b) (value_counts s)"
proof -
  have "sorted (map (\<lambda>(k, n). - int n) (value_counts s))"
    unfolding value_counts_def Let_def by (rule sorted_sort_key)
  then show ?thesis
    by (simp add: sorted_map case_prod_unfold)
qed

lemma head_descending:
  "sorted_wrt (\<lambda>a b. snd a \<ge> snd b) (head n (value_counts s))"
  unfolding head_def by (rule sorted_wrt_take [OF value_counts_descending])

lemma analyze_categorical_top_values:
  assumes "s \<in> set (analyze_categorical_columns df m)"
  shows "\<exists>tv. top_values s = Some tv \<and> length tv \<le> 10 \<and> sorted_wrt (\<lambda>a b. snd a \<ge> snd b) tv"
  using assms by (auto simp add: analyze_categorical_columns_def head_descending) (simp add: head_def)

lemma display_category_no_caption:
  assumes "top_values s = Some tv"
  shows "Caption t \<notin> set (display_category s)"
  using assms by (simp add: display_category_def)

lemma sample_categorical_result:
  "analyze_categorical_columns sample_table 2 =
     [\<lparr>cat_column = ''city'', unique_count = 2,
       top_values = Some [(Str ''Oslo'', 2), (Str ''Rome'', 1)]\<rparr>]"
  by (simp add: analyze_categorical_columns_def sample_table_def select_dtypes_def slice_to_def
      nunique_def dropna_def value_counts_def head_def)

text \<open>
  C9. Every summary returned by \<^verbatim>\<open>analyze_categorical_columns\<close> has a
  \<^verbatim>\<open>top_values\<close> table that is present (not \<^verbatim>\<open>None\<close>), holds at most 10 entries and
  lists them by descending count. The categories display loop therefore never takes
  the branch that writes a caption, \<^verbatim>\<open>Too many unique values to visualize clearly.\<close>
  in particular.
\<close>

theorem top_values_always_present:
  "(\<forall>s \<in> set (analyze_categorical_columns df m).
      \<exists>tv. top_values s = Some tv \<and> length tv \<le> 10 \<and> sorted_wrt (\<lambda>a b. snd a \<ge> snd b) tv) \<and>
   (\<forall>t. Caption t \<notin> set (display_categories (analyze_categorical_columns df m)))"
proof (intro conjI ballI allI)
  fix s assume "s \<in> set (analyze_categorical_columns df m)"
  then show "\<exists>tv. top_values s = Some tv \<and> length tv \<le> 10 \<and>
      sorted_wrt (\<lambda>a b. snd a \<ge> snd b) tv"
    by (rule analyze_categorical_top_values)
next
  fix t
  show "Caption t \<notin> set (display_categories (analyze_categorical_columns df m))"
  proof
    assume "Caption t \<in> set (display_categories (analyze_categorical_columns df m))"
    then obtain s where s: "s \<in> set (analyze_categorical_columns df m)"
      and c: "Caption t \<in> set (display_category s)"
      by (auto simp add: display_categories_def)
    from analyze_categorical_top_values [OF s] obtain tv where "top_values s = Some tv" by blast
    then show False using c display_category_no_caption by blast
  qed
qed

theorem top_values_always_present_witness:
  "analyze_categorical_columns sample_table 2 =
     [\<lparr>cat_column = ''city'', unique_count = 2,
       top_values = Some [(Str ''Oslo'', 2), (Str ''Rome'', 1)]\<rparr>] \<and>
   Caption ''Too many unique values to visualize clearly.'' \<notin>
     set (display_categories (analyze_categorical_columns sample_table 2)) \<and>
   display_categories (analyze_categorical_columns sample_table 2) =
     [Markdown ''**city** (2 unique values)'',
      Pyplot [(Str ''Oslo'', 2), (Str ''Rome'', 1)] ''city'']"
proof -
  have "Caption ''Too many unique values to visualize clearly.'' \<notin>
     set (display_categories (analyze_categorical_columns sample_table 2))"
    using top_values_always_present [of sample_table 2] by blast
  then show ?thesis
    by (simp add: sample_categorical_result display_categories_def display_category_def
        str_nat.simps)
qed

section \<open>Properties of the date-range detection\<close>

lemma date_range_loop_skip:
  assumes "\<forall>p \<in> set pre. \<not> is_date_column to_datetime p"
  shows "date_range_loop to_datetime date_str (pre @ rest) =
         date_range_loop to_datetime date_str rest"
  using assms
  by (induction pre) (auto simp add: is_date_column_def gt_def notna_mean_def Let_def)

lemma parsed_dates_nonempty:
  assumes "is_date_column to_datetime c"
  shows "parsed_dates to_datetime c \<noteq> []"
proof
  assume "parsed_dates to_datetime c = []"
  then have "filter (\<lambda>d. d \<noteq> None) (to_datetime (cells c)) = []"
    by (auto simp add: parsed_dates_def List.map_filter_def filter_empty_conv)
  then show False using assms by (simp add: is_date_column_def)
qed

lemma date_range_loop_hit:
  assumes "is_date_column to_datetime c"
  shows "date_range_loop to_datetime date_str (c # post) =
     date_str (Min (set (parsed_dates to_datetime c))) @ '' to '' @
     date_str (Max (set (parsed_dates to_datetime c)))"
proof -
  have ne: "parsed_dates to_datetime c \<noteq> []" using assms by (rule parsed_dates_nonempty)
  then obtain d ds where ds: "List.map_filter id (to_datetime (cells c)) = d # ds"
    by (cases "List.map_filter id (to_datetime (cells c))") (auto simp add: parsed_dates_def)
  have "gt (notna_mean (to_datetime (cells c))) 0.7" and "dtype c = Object"
    using assms by (simp_all add: is_date_column_def gt_def notna_mean_def)
  then show ?thesis
    by (simp add: Let_def dates_min_def dates_max_def date_of_def parsed_dates_def ds)
qed

text \<open>
  C6. \<^verbatim>\<open>identify_date_range\<close> scans the columns in table order. At the first text
  column of which more than 0.7 of the values parse as dates it returns the smallest
  and the largest parsed date joined by \<^verbatim>\<open>to\<close>, whatever columns come after it; when
  no text column passes the threshold it returns \<^verbatim>\<open>No date column detected\<close>.
\<close>

theorem identify_date_range_first_match:
  "(columns df = pre @ c # post \<and> is_date_column to_datetime c \<and>
      (\<forall>p \<in> set pre. \<not> is_date_column to_datetime p) \<longrightarrow>
      parsed_dates to_datetime c \<noteq> [] \<and>
      identify_date_range to_datetime date_str df =
        date_str (Min (set (parsed_dates to_datetime c))) @ '' to '' @
        date_str (Max (set (parsed_dates to_datetime c)))) \<and>
   ((\<forall>p \<in> set (columns df). \<not> is_date_column to_datetime p) \<longrightarrow>
      identify_date_range to_datetime date_str df = ''No date column detected'')"
proof (intro conjI impI)
  assume h: "columns df = pre @ c # post \<and> is_date_column to_datetime c \<and>
      (\<forall>p \<in> set pre. \<not> is_date_column to_datetime p)"
  then show "parsed_dates to_datetime c \<noteq> []" by (simp add: parsed_dates_nonempty)
  from h have cols: "columns df = pre @ c # post"
    and miss: "\<forall>p \<in> set pre. \<not> is_date_column to_datetime p" by simp_all
  have "identify_date_range to_datetime date_str df =
      date_range_loop to_datetime date_str (c # post)"
    unfolding identify_date_range_def cols using miss by (rule date_range_loop_skip)
  also have "\<dots> = date_str (Min (set (parsed_dates to_datetime c))) @ '' to '' @
        date_str (Max (set (parsed_dates to_datetime c)))"
    using h by (intro date_range_loop_hit) simp
  finally show "identify_date_range to_datetime date_str df =
        date_str (Min (set (parsed_dates to_datetime c))) @ '' to '' @
        date_str (Max (set (parsed_dates to_datetime c)))" .
next
  assume "\<forall>p \<in> set (columns df). \<not> is_date_column to_datetime p"
  then have "date_range_loop to_datetime date_str (columns df @ []) =
      date_range_loop to_datetime date_str []"
    by (rule date_range_loop_skip)
  then show "identify_date_range to_datetime date_str df = ''No date column detected''"
    by (simp add: identify_date_range_def)
qed

theorem identify_date_range_first_match_witness:
  "identify_date_range january_to_datetime january_str dated_table = ''2024-01-02 to 2024-01-09'' \<and>
   identify_date_range january_to_datetime january_str sample_table = ''No date column detected''"
proof -
  let ?note = "\<lparr>label = ''note'', dtype = Object,
          cells = [Some (Str ''paid''), Some (Str ''2024-01-02''), Some (Str ''late''), None]\<rparr>"
  let ?amount = "\<lparr>label = ''amount'', dtype = Number,
          cells = [Some (Num 5), Some (Num 7), Some (Num 7), Some (Num 9)]\<rparr>"
  let ?day = "\<lparr>label = ''day'', dtype = Object,
          cells = [Some (Str ''2024-01-09''), Some (Str ''2024-01-02''), Some (Str ''soon''),
                   Some (Str ''2024-01-05'')]\<rparr>"
  let ?due = "\<lparr>label = ''due'', dtype = Object,
          cells = [Some (Str ''2024-01-01''), Some (Str ''2024-01-02''), Some (Str ''2024-01-05''),
                   Some (Str ''2024-01-09'')]\<rparr>"
  have split: "columns dated_table = [?note, ?amount] @ ?day # [?due]"
    by (simp add: dated_table_def)
  have hit: "is_date_column january_to_datetime ?day"
    by (simp add: is_date_column_def january_to_datetime_def)
  have miss: "\<forall>p \<in> set [?note, ?amount]. \<not> is_date_column january_to_datetime p"
    by (simp add: is_date_column_def january_to_datetime_def)
  have pd: "parsed_dates january_to_datetime ?day = [9, 2, 5]"
    by (simp add: parsed_dates_def january_to_datetime_def List.map_filter_def)
  have "identify_date_range january_to_datetime january_str dated_table =
        january_str (Min (set (parsed_dates january_to_datetime ?day))) @ '' to '' @
        january_str (Max (set (parsed_dates january_to_datetime ?day)))"
    using identify_date_range_first_match
      [of dated_table "[?note, ?amount]" ?day "[?due]" january_to_datetime january_str]
      split hit miss by blast
  then have a: "identify_date_range january_to_datetime january_str dated_table =
      ''2024-01-02 to 2024-01-09''"
    by (simp add: pd january_str_def str_nat.simps)
  have "\<forall>p \<in> set (columns sample_table). \<not> is_date_column january_to_datetime p"
    by (simp add: sample_table_def is_date_column_def january_to_datetime_def)
  then have b: "identify_date_range january_to_datetime january_str sample_table =
      ''No date column detected''"
    using identify_date_range_first_match
      [of sample_table "[]" "hd (columns sample_table)" "[]" january_to_datetime january_str]
    by blast
  show ?thesis using a b by simp
qed

section \<open>Properties of the correlation analysis\<close>

lemma fold_corr_inner:
  "fold (corr_inner cm t i) js rs =
     rs @ map (pair_record cm i) (filter (\<lambda>j. abs_ge (iloc cm i j) t) js)"
  by (induction js arbitrary: rs) (simp_all add: corr_inner_def)

lemma fold_corr_outer:
  "fold (\<lambda>i. fold (corr_inner cm t i) [Suc i ..< n]) is rs =
     rs @ concat (map (\<lambda>i. map (pair_record cm i)
                          (filter (\<lambda>j. abs_ge (iloc cm i j) t) [Suc i ..< n])) is)"
  by (induction "is" arbitrary: rs) (simp_all add: fold_corr_inner)

lemma upper_pairs_small: "n < 2 \<Longrightarrow> upper_pairs n = []"
  by (cases n) (auto simp add: upper_pairs_def)

lemma find_correlations_eq:
  "find_correlations coef df t =
     map (\<lambda>(i, j). pair_record (corr coef (select_dtypes df Number)) i j)
       (filter (\<lambda>(i, j). abs_ge (iloc (corr coef (select_dtypes df Number)) i j) t)
          (upper_pairs (length (select_dtypes df Number))))"
proof (cases "length (select_dtypes df Number) < 2")
  case True
  then show ?thesis by (simp add: find_correlations_def upper_pairs_small)
next
  case False
  have len: "length (corr_columns (corr coef (select_dtypes df Number))) = length (select_dtypes df Number)"
    by (simp add: corr_def)
  show ?thesis using False
    by (simp add: find_correlations_def Let_def len fold_corr_outer upper_pairs_def
        map_concat filter_concat o_def filter_map)
qed

lemma upper_pairs_set: "(i, j) \<in> set (upper_pairs n) \<longleftrightarrow> i < j \<and> j < n"
  by (fastforce simp add: upper_pairs_def)

lemma rows_row_major:
  assumes "sorted_wrt (<) is"
  shows "sorted_wrt row_major (concat (map (\<lambda>i. map (\<lambda>j. (i, j)) [i + 1 ..< n]) is))"
  using assms
  by (induction "is") (auto simp add: sorted_wrt_append sorted_wrt_map row_major_def)

lemma upper_pairs_row_major: "sorted_wrt row_major (upper_pairs n)"
  unfolding upper_pairs_def by (rule rows_row_major) simp

lemma sorted_wrt_irrefl_distinct:
  assumes "\<And>x. \<not> P x x" and "sorted_wrt P xs"
  shows "distinct xs"
  using assms(2) by (induction xs) (auto simp add: assms(1))

lemma upper_pairs_distinct: "distinct (upper_pairs n)"
  by (rule sorted_wrt_irrefl_distinct [OF _ upper_pairs_row_major]) (simp add: row_major_def)

lemma find_correlations_member:
  assumes "r \<in> set (find_correlations coef df t)"
  shows "\<exists>i j. i < j \<and> j < length (select_dtypes df Number) \<and>
           r = pair_record (corr coef (select_dtypes df Number)) i j \<and>
           abs_ge (iloc (corr coef (select_dtypes df Number)) i j) t"
proof -
  from assms obtain p
    where p: "p \<in> set (upper_pairs (length (select_dtypes df Number)))"
      and k: "case p of (i, j) \<Rightarrow> abs_ge (iloc (corr coef (select_dtypes df Number)) i j) t"
      and r: "r = (case p of (i, j) \<Rightarrow> pair_record (corr coef (select_dtypes df Number)) i j)"
    unfolding find_correlations_eq by auto
  obtain i j where ij: "p = (i, j)" by (cases p)
  have "i < j \<and> j < length (select_dtypes df Number)"
    using p by (simp add: ij upper_pairs_set)
  then show ?thesis using k r by (auto simp add: ij)
qed

lemma pair_record_fields:
  assumes "abs_ge (iloc cm i j) t"
  shows "\<exists>v. correlation (pair_record cm i j) = Some v \<and> t \<le> \<bar>v\<bar> \<and>
             direction (pair_record cm i j) = (if 0 < v then ''positive'' else ''negative'')"
  using assms by (cases "iloc cm i j") (simp_all add: abs_ge_def gt_def pair_record_def)

lemma pair_record_columns:
  assumes "i < length numeric" "j < length numeric"
  shows "column1 (pair_record (corr coef numeric) i j) = label (numeric ! i)"
    and "column2 (pair_record (corr coef numeric) i j) = label (numeric ! j)"
  using assms by (simp_all add: pair_record_def corr_def)

lemma distinct_numeric_labels:
  assumes "distinct (map label (columns df))"
  shows "distinct (map label (select_dtypes df Number))"
  using assms unfolding select_dtypes_def by (rule distinct_map_filter)

lemma label_index:
  assumes "distinct (map label numeric)" "i < length numeric" "j < length numeric"
  shows "label (numeric ! i) = label (numeric ! j) \<longleftrightarrow> i = j"
  using assms nth_eq_iff_index_eq [of "map label numeric" i j] by simp

text \<open>
  C5. Every pair returned by \<^verbatim>\<open>find_correlations\<close> has a coefficient (not a NaN) of
  absolute value at least the threshold, and the direction \<^verbatim>\<open>positive\<close> exactly when
  the coefficient is above 0, \<^verbatim>\<open>negative\<close> otherwise. The pairs are those of the
  index pairs \<open>i < j\<close> over the numeric columns in table order, row by row, that pass
  the threshold: no pair has twice the same column, none is repeated, none appears in
  both orders. With fewer than two numeric columns the result is empty. Columns are
  identified by their labels, which are unique. This holds whatever the coefficients
  are: \<open>coef\<close> is arbitrary.
\<close>

theorem find_correlations_pairs:
  assumes "distinct (map label (columns df))"
  shows "find_correlations coef df t =
      map (\<lambda>(i, j). pair_record (corr coef (select_dtypes df Number)) i j)
        (filter (\<lambda>(i, j). abs_ge (iloc (corr coef (select_dtypes df Number)) i j) t)
           (upper_pairs (length (select_dtypes df Number)))) \<and>
    (\<forall>r \<in> set (find_correlations coef df t).
        \<exists>v. correlation r = Some v \<and> t \<le> \<bar>v\<bar> \<and>
            direction r = (if 0 < v then ''positive'' else ''negative'') \<and>
            column1 r \<noteq> column2 r) \<and>
    distinct (map (\<lambda>r. (column1 r, column2 r)) (find_correlations coef df t)) \<and>
    (\<forall>r \<in> set (find_correlations coef df t). \<forall>r' \<in> set (find_correlations coef df t).
        (column1 r', column2 r') \<noteq> (column2 r, column1 r)) \<and>
    (length (select_dtypes df Number) < 2 \<longrightarrow> find_correlations coef df t = [])"
proof -
  let ?numeric = "select_dtypes df Number"
  let ?cm = "corr coef ?numeric"
  let ?n = "length ?numeric"
  let ?names = "\<lambda>r. (column1 r, column2 r)"
  have dl: "distinct (map label ?numeric)"
    using assms by (rule distinct_numeric_labels)
  have fields: "\<exists>v. correlation r = Some v \<and> t \<le> \<bar>v\<bar> \<and>
            direction r = (if 0 < v then ''positive'' else ''negative'') \<and>
            column1 r \<noteq> column2 r"
    if "r \<in> set (find_correlations coef df t)" for r
  proof -
    from find_correlations_member [OF that] obtain i j
      where ij: "i < j" "j < ?n" "r = pair_record ?cm i j" "abs_ge (iloc ?cm i j) t" by blast
    from pair_record_fields [OF ij(4)] obtain v
      where v: "correlation r = Some v" "t \<le> \<bar>v\<bar>"
        "direction r = (if 0 < v then ''positive'' else ''negative'')"
      unfolding ij(3) by blast
    have "label (?numeric ! i) \<noteq> label (?numeric ! j)"
      using label_index [OF dl, of i j] ij(1,2) by simp
    then have "column1 r \<noteq> column2 r"
      using ij by (simp add: pair_record_columns)
    then show ?thesis using v by blast
  qed
  have inj: "inj_on (\<lambda>(i, j). ?names (pair_record ?cm i j)) (set (upper_pairs ?n))"
  proof (rule inj_onI)
    fix p q
    assume p: "p \<in> set (upper_pairs ?n)" and q: "q \<in> set (upper_pairs ?n)"
      and e: "(case p of (i, j) \<Rightarrow> ?names (pair_record ?cm i j)) =
              (case q of (i, j) \<Rightarrow> ?names (pair_record ?cm i j))"
    obtain i j where pij: "p = (i, j)" by (cases p)
    obtain k l where qkl: "q = (k, l)" by (cases q)
    have b: "i < j" "j < ?n" "k < l" "l < ?n"
      using p q by (simp_all add: pij qkl upper_pairs_set)
    then have "label (?numeric ! i) = label (?numeric ! k)"
      and "label (?numeric ! j) = label (?numeric ! l)"
      using e by (simp_all add: pij qkl pair_record_columns)
    then have "i = k" "j = l"
      using label_index [OF dl, of i k] label_index [OF dl, of j l] b by simp_all
    then show "p = q" by (simp add: pij qkl)
  qed
  have "distinct (map (\<lambda>(i, j). ?names (pair_record ?cm i j))
          (filter (\<lambda>(i, j). abs_ge (iloc ?cm i j) t) (upper_pairs ?n)))"
    by (rule distinct_map_filter) (simp add: distinct_map upper_pairs_distinct inj)
  then have dist: "distinct (map ?names (find_correlations coef df t))"
    unfolding find_correlations_eq by (simp add: o_def case_prod_unfold)
  have orders: "(column1 r', column2 r') \<noteq> (column2 r, column1 r)"
    if "r \<in> set (find_correlations coef df t)" "r' \<in> set (find_correlations coef df t)" for r r'
  proof
    assume e: "(column1 r', column2 r') = (column2 r, column1 r)"
    from find_correlations_member [OF that(1)] obtain i j
      where ij: "i < j" "j < ?n" "r = pair_record ?cm i j" by blast
    from find_correlations_member [OF that(2)] obtain k l
      where kl: "k < l" "l < ?n" "r' = pair_record ?cm k l" by blast
    have "label (?numeric ! k) = label (?numeric ! j)"
      and "label (?numeric ! l) = label (?numeric ! i)"
      using e ij kl by (simp_all add: pair_record_columns)
    then have "k = j" "l = i"
      using label_index [OF dl, of k j] label_index [OF dl, of l i] ij kl by simp_all
    then show False using ij(1) kl(1) by simp
  qed
  have small: "length ?numeric < 2 \<longrightarrow> find_correlations coef df t = []"
    by (simp add: find_correlations_def)
  show ?thesis
    using find_correlations_eq [of coef df t] fields dist orders small by blast
qed

lemma paired_correlations:
  "map (\<lambda>(i, j). pair_record (corr pearson_exact (select_dtypes paired_table Number)) i j)
        (filter (\<lambda>(i, j). abs_ge (iloc (corr pearson_exact (select_dtypes paired_table Number)) i j) (1 / 2))
           (upper_pairs (length (select_dtypes paired_table Number)))) =
     [\<lparr>column1 = ''up'', column2 = ''down'', correlation = Some (- 1), direction = ''negative''\<rparr>,
      \<lparr>column1 = ''up'', column2 = ''mixed'', correlation = Some (1 / 2), direction = ''positive''\<rparr>,
      \<lparr>column1 = ''down'', column2 = ''mixed'', correlation = Some (- 1 / 2),
       direction = ''negative''\<rparr>]"
  by (simp add: paired_table_def select_dtypes_def upper_pairs_def upt_rec corr_def iloc_def
      pair_record_def abs_ge_def gt_def corr_entry_def pearson_exact_def complete_pairs_def List.map_filter_def
      Let_def power2_eq_square)

theorem find_correlations_pairs_witness:
  "distinct (map label (columns paired_table)) \<and>
   find_correlations pearson_exact paired_table (1 / 2) =
     [\<lparr>column1 = ''up'', column2 = ''down'', correlation = Some (- 1), direction = ''negative''\<rparr>,
      \<lparr>column1 = ''up'', column2 = ''mixed'', correlation = Some (1 / 2), direction = ''positive''\<rparr>,
      \<lparr>column1 = ''down'', column2 = ''mixed'', correlation = Some (- 1 / 2),
       direction = ''negative''\<rparr>]"
proof -
  have d: "distinct (map label (columns paired_table))"
    by (simp add: paired_table_def)
  have "find_correlations pearson_exact paired_table (1 / 2) =
      map (\<lambda>(i, j). pair_record (corr pearson_exact (select_dtypes paired_table Number)) i j)
        (filter (\<lambda>(i, j). abs_ge (iloc (corr pearson_exact (select_dtypes paired_table Number)) i j) (1 / 2))
           (upper_pairs (length (select_dtypes paired_table Number))))"
    using find_correlations_pairs [OF d, of pearson_exact "1 / 2"] by blast
  then show ?thesis using d by (simp only: paired_correlations simp_thms)
qed

section \<open>Properties of the correlation matrix\<close>








end
